theory Spec2Isabelle
  imports Complex_Main
begin

section \<open>Python values and errors\<close>

text \<open>
  The functions of \<^verbatim>\<open>api/simqueue/db.py\<close> are dynamically typed: a parameter that is
  compared with a column may hold any Python value. Such parameters are values of
  \<open>val\<close>; the columns of the tables keep the types the table metadata declares.
  A UUID is written as its string, dates and timestamps as a day or instant number.
  A comparison of a column with a scalar of another type holds for no row; a list or a
  dict cannot be bound to a statement parameter at all, and the driver raises
  \<open>DataError\<close> when the statement is executed.
\<close>

datatype error =
    TypeError
  | KeyError
  | IndexError
  | ParseError
  | DataError
  | UniqueViolationError
  | ForeignKeyViolationError

datatype val =
    VNone
  | VBool bool
  | VInt int
  | VFloat real
  | VStr string
  | VList "val list"
  | VDict "(string \<times> val) list"

text \<open>Truth value of a Python object, as \<^verbatim>\<open>if x:\<close> tests it.\<close>

fun truthy :: "val \<Rightarrow> bool" where
  "truthy VNone = False"
| "truthy (VBool b) = b"
| "truthy (VInt i) = (i \<noteq> 0)"
| "truthy (VFloat x) = (x \<noteq> 0)"
| "truthy (VStr s) = (s \<noteq> [])"
| "truthy (VList xs) = (xs \<noteq> [])"
| "truthy (VDict kvs) = (kvs \<noteq> [])"

text \<open>Lists and dicts cannot be dictionary keys.\<close>

fun hashable :: "val \<Rightarrow> bool" where
  "hashable (VList xs) = False"
| "hashable (VDict kvs) = False"
| "hashable v = True"

type_synonym pydict = "string \<rightharpoonup> val"

text \<open>\<^verbatim>\<open>d.get(k, None)\<close> and \<^verbatim>\<open>d[k]\<close>.\<close>

definition dict_get :: "pydict \<Rightarrow> string \<Rightarrow> val" where
  "dict_get d k = (case d k of None \<Rightarrow> VNone | Some v \<Rightarrow> v)"

definition dict_index :: "pydict \<Rightarrow> string \<Rightarrow> error + val" where
  "dict_index d k = (case d k of None \<Rightarrow> Inl KeyError | Some v \<Rightarrow> Inr v)"

text \<open>A nullable column read into a Python value.\<close>

definition nullable :: "('a \<Rightarrow> val) \<Rightarrow> 'a option \<Rightarrow> val" where
  "nullable f x = (case x of None \<Rightarrow> VNone | Some y \<Rightarrow> f y)"

section \<open>Tables\<close>

text \<open>
  One record per table of the metadata, one field per column; a column without
  \<^verbatim>\<open>nullable=False\<close> that is not a primary key is an option. That includes the flag
  \<open>accepted\<close> of a project: \<^verbatim>\<open>post_project\<close> and \<^verbatim>\<open>put_project\<close> store the value the
  caller gives, which may be \<open>None\<close>.
\<close>

record data_item =
  d_id :: int
  d_url :: "string option"

record job_row =
  j_id :: int
  j_code :: string
  j_command :: string
  j_collab_id :: string
  j_user_id :: string
  j_status :: string
  j_hardware_platform :: string
  j_hardware_config :: "string option"
  j_timestamp_submission :: int
  j_timestamp_completion :: "int option"
  j_provenance :: "string option"
  j_resource_usage :: "real option"

record log_row =
  l_job_id :: int
  l_content :: string

record project_row =
  p_context :: string
  p_collab :: string
  p_owner :: string
  p_title :: string
  p_abstract :: string
  p_description :: string
  p_duration :: "int option"
  p_start_date :: "int option"
  p_accepted :: "bool option"
  p_submission_date :: "int option"
  p_decision_date :: "int option"

record quota_row =
  q_id :: int
  q_units :: string
  q_limit :: real
  q_usage :: real
  q_platform :: string
  q_project_id :: string

text \<open>
  The database: each table is the list of its rows, in the order the store returns them.
  \<open>quota_seq\<close> is the next value of the sequence behind the integer primary key of
  \<^verbatim>\<open>quotas_quota\<close>, which an insert without an id draws from. Of the constraints the
  metadata declares, the store enforces the primary key \<open>context\<close> of \<^verbatim>\<open>quotas_project\<close>
  on insert and the reference of \<^verbatim>\<open>quotas_quota.project_id\<close> to it when a project is
  deleted. Offsets and limits are natural numbers.
\<close>

record store =
  jobs :: "job_row list"
  job_input_data :: "(int \<times> int) list"
  job_output_data :: "(int \<times> int) list"
  data_items :: "data_item list"
  logs :: "log_row list"
  projects :: "project_row list"
  quotas :: "quota_row list"
  quota_seq :: int

text \<open>\<^verbatim>\<open>dict(row)\<close> for a row of each table.\<close>

definition dict_of_data_item :: "data_item \<Rightarrow> val" where
  "dict_of_data_item d = VDict [(''id'', VInt (d_id d)), (''url'', nullable VStr (d_url d))]"

definition dict_of_job :: "job_row \<Rightarrow> pydict" where
  "dict_of_job r =
     [''id'' \<mapsto> VInt (j_id r),
      ''code'' \<mapsto> VStr (j_code r),
      ''command'' \<mapsto> VStr (j_command r),
      ''collab_id'' \<mapsto> VStr (j_collab_id r),
      ''user_id'' \<mapsto> VStr (j_user_id r),
      ''status'' \<mapsto> VStr (j_status r),
      ''hardware_platform'' \<mapsto> VStr (j_hardware_platform r),
      ''hardware_config'' \<mapsto> nullable VStr (j_hardware_config r),
      ''timestamp_submission'' \<mapsto> VInt (j_timestamp_submission r),
      ''timestamp_completion'' \<mapsto> nullable VInt (j_timestamp_completion r),
      ''provenance'' \<mapsto> nullable VStr (j_provenance r),
      ''resource_usage'' \<mapsto> nullable VFloat (j_resource_usage r)]"

definition dict_of_log :: "log_row \<Rightarrow> pydict" where
  "dict_of_log r = [''job_id'' \<mapsto> VInt (l_job_id r), ''content'' \<mapsto> VStr (l_content r)]"

definition dict_of_project :: "project_row \<Rightarrow> pydict" where
  "dict_of_project r =
     [''context'' \<mapsto> VStr (p_context r),
      ''collab'' \<mapsto> VStr (p_collab r),
      ''owner'' \<mapsto> VStr (p_owner r),
      ''title'' \<mapsto> VStr (p_title r),
      ''abstract'' \<mapsto> VStr (p_abstract r),
      ''description'' \<mapsto> VStr (p_description r),
      ''duration'' \<mapsto> nullable VInt (p_duration r),
      ''start_date'' \<mapsto> nullable VInt (p_start_date r),
      ''accepted'' \<mapsto> nullable VBool (p_accepted r),
      ''submission_date'' \<mapsto> nullable VInt (p_submission_date r),
      ''decision_date'' \<mapsto> nullable VInt (p_decision_date r)]"

definition dict_of_quota :: "quota_row \<Rightarrow> pydict" where
  "dict_of_quota r =
     [''id'' \<mapsto> VInt (q_id r),
      ''units'' \<mapsto> VStr (q_units r),
      ''limit'' \<mapsto> VFloat (q_limit r),
      ''usage'' \<mapsto> VFloat (q_usage r),
      ''platform'' \<mapsto> VStr (q_platform r),
      ''project_id'' \<mapsto> VStr (q_project_id r)]"

section \<open>Quotas\<close>

text \<open>
  \<^verbatim>\<open>query_quotas(project_id, from_index, size)\<close>: the filter, the offset and the limit
  are applied only when \<open>project_id\<close> is truthy.
\<close>

definition query_quotas :: "val \<Rightarrow> nat \<Rightarrow> nat \<Rightarrow> store \<Rightarrow> pydict list" where
  "query_quotas project_id from_index sz st =
     (let results =
        (if truthy project_id
         then take sz (drop from_index
                (filter (\<lambda>q. VStr (q_project_id q) = project_id) (quotas st)))
         else quotas st)
      in map dict_of_quota results)"

text \<open>
  \<^verbatim>\<open>get_quota(quota_id, project_id)\<close>: \<open>fetch_one\<close> gives the first matching row or
  \<open>None\<close>; the function returns \<open>None\<close> in the second case.
\<close>

definition get_quota :: "val \<Rightarrow> val \<Rightarrow> store \<Rightarrow> pydict option" where
  "get_quota quota_id project_id st =
     (case find (\<lambda>q. VInt (q_id q) = quota_id \<and> VStr (q_project_id q) = project_id) (quotas st) of
        None \<Rightarrow> None
      | Some results \<Rightarrow> Some (dict_of_quota results))"

text \<open>\<^verbatim>\<open>query_deleteonequota(quota_id, project_id)\<close>: first parameter the quota, second the project.\<close>

definition query_deleteonequota :: "val \<Rightarrow> val \<Rightarrow> store \<Rightarrow> store" where
  "query_deleteonequota quota_id project_id st =
     st\<lparr>quotas :=
          filter (\<lambda>q. \<not> (VInt (q_id q) = quota_id \<and> VStr (q_project_id q) = project_id))
            (quotas st)\<rparr>"

text \<open>
  \<^verbatim>\<open>delete_quotas_from_project(project_id)\<close>: selects the quotas of the project, then
  calls \<^verbatim>\<open>query_deleteonequota(project_id, result.id)\<close> for each, the arguments in this
  order.
\<close>

definition delete_quotas_from_project :: "val \<Rightarrow> store \<Rightarrow> store" where
  "delete_quotas_from_project project_id st =
     (let results = filter (\<lambda>q. VStr (q_project_id q) = project_id) (quotas st)
      in fold (\<lambda>result s. query_deleteonequota project_id (VInt (q_id result)) s) results st)"

text \<open>The two arguments of \<^verbatim>\<open>post_quotas\<close> and \<^verbatim>\<open>put_quotas\<close> that carry the quota's fields.\<close>

record quota_in =
  qi_limit :: real
  qi_platform :: string
  qi_units :: string

record quota_update =
  qu_limit :: real
  qu_usage :: real

text \<open>
  \<^verbatim>\<open>post_quotas(project_id, quota)\<close>: one insert, with usage 0 and the id drawn from the
  sequence. The function has no \<^verbatim>\<open>return\<close>: its value is \<open>None\<close>.
\<close>

definition post_quotas :: "string \<Rightarrow> quota_in \<Rightarrow> store \<Rightarrow> val \<times> store" where
  "post_quotas project_id quota st =
     (VNone,
      st\<lparr>quotas := quotas st @
            [\<lparr>q_id = quota_seq st, q_units = qi_units quota, q_limit = qi_limit quota,
              q_usage = 0, q_platform = qi_platform quota, q_project_id = project_id\<rparr>],
         quota_seq := quota_seq st + 1\<rparr>)"

text \<open>\<^verbatim>\<open>put_quotas(project_id, quota, quota_id)\<close>: an update of limit and usage on the rows of that id and project.\<close>

definition put_quotas :: "val \<Rightarrow> quota_update \<Rightarrow> val \<Rightarrow> store \<Rightarrow> store" where
  "put_quotas project_id quota quota_id st =
     st\<lparr>quotas :=
          map (\<lambda>q. if VInt (q_id q) = quota_id \<and> VStr (q_project_id q) = project_id
                   then q\<lparr>q_limit := qu_limit quota, q_usage := qu_usage quota\<rparr>
                   else q)
            (quotas st)\<rparr>"

section \<open>Projects\<close>

text \<open>\<^verbatim>\<open>transform_project_fields\<close>: \<^verbatim>\<open>project["id"] = project.pop("context")\<close>.\<close>

definition transform_project_fields :: "pydict \<Rightarrow> error + pydict" where
  "transform_project_fields project =
     (case project ''context'' of
        None \<Rightarrow> Inl KeyError
      | Some c \<Rightarrow> Inr ((project(''context'' := None))(''id'' \<mapsto> c)))"

text \<open>\<^verbatim>\<open>get_project(project_id)\<close>: returns \<open>None\<close> when \<open>fetch_one\<close> finds no row.\<close>

definition get_project :: "val \<Rightarrow> store \<Rightarrow> error + pydict option" where
  "get_project project_id st =
     (case find (\<lambda>p. VStr (p_context p) = project_id) (projects st) of
        None \<Rightarrow> Inr None
      | Some result \<Rightarrow>
          (case transform_project_fields (dict_of_project result) of
             Inl e \<Rightarrow> Inl e
           | Inr d \<Rightarrow> Inr (Some d)))"

text \<open>
  \<^verbatim>\<open>delete_project(project_id)\<close>: one delete on the projects table. The store refuses it
  when a quota references a project row that the statement would remove, and removes
  nothing then.
\<close>

definition delete_project :: "val \<Rightarrow> store \<Rightarrow> error + store" where
  "delete_project project_id st =
     (let doomed = filter (\<lambda>p. VStr (p_context p) = project_id) (projects st)
      in if list_ex (\<lambda>q. list_ex (\<lambda>p. q_project_id q = p_context p) doomed) (quotas st)
         then Inl ForeignKeyViolationError
         else Inr (st\<lparr>projects :=
                       filter (\<lambda>p. \<not> (VStr (p_context p) = project_id)) (projects st)\<rparr>))"

text \<open>
  The fields \<^verbatim>\<open>post_project\<close> reads from its argument, and the fields
  \<^verbatim>\<open>put_project\<close> reads from its update.
\<close>

record project_in =
  pi_id :: string
  pi_collab :: string
  pi_owner :: string
  pi_title :: string
  pi_abstract :: string
  pi_description :: string
  pi_accepted :: "bool option"
  pi_submitted :: bool

record project_update =
  pu_collab :: string
  pu_owner :: string
  pu_title :: string
  pu_abstract :: string
  pu_description :: string
  pu_duration :: "int option"
  pu_start_date :: "int option"
  pu_accepted :: "bool option"
  pu_submission_date :: "int option"
  pu_decision_date :: "int option"

text \<open>
  \<^verbatim>\<open>post_project(project)\<close>; \<open>today\<close> is the value of \<^verbatim>\<open>date.today()\<close>. The statement
  names no start date and no decision date, so both columns stay null. The key is the
  identifier of the request: the store refuses the insert when a project with that key is
  stored. The function has no \<^verbatim>\<open>return\<close>: its value is \<open>None\<close>.
\<close>

definition post_project :: "int \<Rightarrow> project_in \<Rightarrow> store \<Rightarrow> error + val \<times> store" where
  "post_project today project st =
     (let submission_date = (if pi_submitted project then Some today else None)
      in if list_ex (\<lambda>p. p_context p = pi_id project) (projects st)
         then Inl UniqueViolationError
         else Inr (VNone,
                st\<lparr>projects := projects st @
                      [\<lparr>p_context = pi_id project, p_collab = pi_collab project,
                        p_owner = pi_owner project, p_title = pi_title project,
                        p_abstract = pi_abstract project,
                        p_description = pi_description project,
                        p_duration = Some 0, p_start_date = None,
                        p_accepted = pi_accepted project,
                        p_submission_date = submission_date,
                        p_decision_date = None\<rparr>]\<rparr>))"

text \<open>\<^verbatim>\<open>put_project(project_id, project_update)\<close>: every column but the key is replaced.\<close>

definition put_project :: "val \<Rightarrow> project_update \<Rightarrow> store \<Rightarrow> store" where
  "put_project project_id project_update st =
     st\<lparr>projects :=
          map (\<lambda>p. if VStr (p_context p) = project_id
                   then p\<lparr>p_collab := pu_collab project_update, p_owner := pu_owner project_update,
                          p_title := pu_title project_update,
                          p_abstract := pu_abstract project_update,
                          p_description := pu_description project_update,
                          p_duration := pu_duration project_update,
                          p_start_date := pu_start_date project_update,
                          p_accepted := pu_accepted project_update,
                          p_submission_date := pu_submission_date project_update,
                          p_decision_date := pu_decision_date project_update\<rparr>
                   else p)
            (projects st)\<rparr>"

section \<open>Filters\<close>

text \<open>
  A filter is the SQL expression the function builds on a column of the table, named by
  the column; the filters of a query are combined by \<^verbatim>\<open>where(*filters)\<close>, a conjunction.
  \<open>Eq\<close> and \<open>Ne\<close> are \<^verbatim>\<open>==\<close> and \<^verbatim>\<open>!=\<close>, which against \<open>None\<close> are the tests for null;
  \<open>In\<close> is \<^verbatim>\<open>in_\<close>; \<open>Between\<close>, \<open>Ge\<close> and \<open>Le\<close> compare a timestamp with dates.
\<close>

datatype sql_expr =
    Eq string val
  | Ne string val
  | In string "val list"
  | Between string int int
  | Ge string int
  | Le string int

text \<open>
  Whether a row, given as its dict, satisfies an expression. A null column satisfies the
  test for null only.
\<close>

fun holds :: "sql_expr \<Rightarrow> pydict \<Rightarrow> bool" where
  "holds (Eq c v) row = (row c = Some v)"
| "holds (Ne c v) row =
     (case row c of
        None \<Rightarrow> False
      | Some x \<Rightarrow> if v = VNone then x \<noteq> VNone else x \<noteq> VNone \<and> x \<noteq> v)"
| "holds (In c vs) row =
     (case row c of None \<Rightarrow> False | Some x \<Rightarrow> x \<noteq> VNone \<and> x \<in> set vs)"
| "holds (Between c lo hi) row =
     (case row c of Some (VInt t) \<Rightarrow> lo \<le> t \<and> t \<le> hi | _ \<Rightarrow> False)"
| "holds (Ge c lo) row = (case row c of Some (VInt t) \<Rightarrow> lo \<le> t | _ \<Rightarrow> False)"
| "holds (Le c hi) row = (case row c of Some (VInt t) \<Rightarrow> t \<le> hi | _ \<Rightarrow> False)"

text \<open>The values that can be bound to a parameter of a statement.\<close>

fun scalar :: "val \<Rightarrow> bool" where
  "scalar (VList xs) = False"
| "scalar (VDict kvs) = False"
| "scalar v = True"

fun bindable :: "sql_expr \<Rightarrow> bool" where
  "bindable (Eq c v) = scalar v"
| "bindable (Ne c v) = scalar v"
| "bindable (In c vs) = list_all scalar vs"
| "bindable e = True"

text \<open>
  \<^verbatim>\<open>database.fetch_all\<close> on \<^verbatim>\<open>select.where(*filters).offset(from_index).limit(size)\<close>: the
  driver binds the parameters first and raises when one cannot be bound, whatever the
  table holds; otherwise the rows that satisfy every filter, from the offset, up to the
  limit.
\<close>

definition fetch_all ::
  "('r \<Rightarrow> pydict) \<Rightarrow> sql_expr list \<Rightarrow> nat \<Rightarrow> nat \<Rightarrow> 'r list \<Rightarrow> error + 'r list" where
  "fetch_all dict_of filters from_index sz rows =
     (if list_all bindable filters
      then Inr (take sz (drop from_index
                  (filter (\<lambda>r. list_all (\<lambda>f. holds f (dict_of r)) filters) rows)))
      else Inl DataError)"

text \<open>
  \<^verbatim>\<open>get_list_filter(attr, value)\<close>: \<^verbatim>\<open>attr.in_(value)\<close> when the list has an element,
  \<^verbatim>\<open>attr == value[0]\<close> otherwise, where \<^verbatim>\<open>value[0]\<close> raises on the empty list.
\<close>

definition get_list_filter :: "string \<Rightarrow> string list \<Rightarrow> error + sql_expr" where
  "get_list_filter attr value =
     (if length value > 0 then Inr (In attr (map VStr value))
      else (case value of [] \<Rightarrow> Inl IndexError | v # _ \<Rightarrow> Inr (Eq attr (VStr v))))"

text \<open>
  The call sites all have the shape
  \<^verbatim>\<open>if arg: filters.append(get_list_filter(column, arg))\<close>, with \<open>arg\<close> a list or \<open>None\<close>.
\<close>

definition append_list_filter ::
  "string \<Rightarrow> string list option \<Rightarrow> sql_expr list \<Rightarrow> error + sql_expr list" where
  "append_list_filter attr arg filters =
     (case arg of
        None \<Rightarrow> Inr filters
      | Some value \<Rightarrow>
          if value \<noteq> []
          then (case get_list_filter attr value of
                  Inl e \<Rightarrow> Inl e
                | Inr f \<Rightarrow> Inr (filters @ [f]))
          else Inr filters)"

text \<open>
  The filters of \<^verbatim>\<open>query_jobs\<close>, in the order the function appends them. The status
  filter is \<^verbatim>\<open>jobs.c.status == status\<close> with \<open>status\<close> the list itself: one equality whose
  right-hand side is the whole list. A date is compared with the submission timestamp on
  one time line.
\<close>

definition query_jobs_filters ::
  "string list option \<Rightarrow> string list option \<Rightarrow> string list option \<Rightarrow> string list option \<Rightarrow>
   int option \<Rightarrow> int option \<Rightarrow> error + sql_expr list" where
  "query_jobs_filters status collab_id user_id hardware_platform date_range_start date_range_end =
     (let filters0 =
        (case status of
           None \<Rightarrow> []
         | Some s \<Rightarrow> if s \<noteq> [] then [Eq ''status'' (VList (map VStr s))] else [])
      in case append_list_filter ''user_id'' user_id filters0 of
           Inl e \<Rightarrow> Inl e
         | Inr filters1 \<Rightarrow>
        (case append_list_filter ''hardware_platform'' hardware_platform filters1 of
           Inl e \<Rightarrow> Inl e
         | Inr filters2 \<Rightarrow>
        (case append_list_filter ''collab_id'' collab_id filters2 of
           Inl e \<Rightarrow> Inl e
         | Inr filters3 \<Rightarrow>
             Inr (filters3 @
               (case date_range_start of
                  Some d1 \<Rightarrow>
                    (case date_range_end of
                       Some d2 \<Rightarrow> [Between ''timestamp_submission'' d1 d2]
                     | None \<Rightarrow> [Ge ''timestamp_submission'' d1])
                | None \<Rightarrow>
                    (case date_range_end of
                       Some d2 \<Rightarrow> [Le ''timestamp_submission'' d2]
                     | None \<Rightarrow> []))))))"

text \<open>
  \<^verbatim>\<open>ProjectStatus\<close> is imported from \<^verbatim>\<open>data_models\<close>; \<^verbatim>\<open>query_projects\<close> names its four
  members. The last branch of the function asserts that the status is \<open>in_prep\<close>, which
  holds there for every member.
\<close>

datatype ProjectStatus = in_prep | accepted | under_review | rejected

definition status_filters :: "ProjectStatus \<Rightarrow> sql_expr list" where
  "status_filters status =
     (if status = accepted then [Eq ''accepted'' (VBool True)]
      else [Eq ''accepted'' (VBool False)] @
        (if status = rejected then [Ne ''decision_date'' VNone]
         else if status = under_review
           then [Ne ''submission_date'' VNone, Eq ''decision_date'' VNone]
         else [Eq ''submission_date'' VNone]))"

text \<open>A project row is selected for a status when it satisfies all filters of the status.\<close>

definition project_matches :: "ProjectStatus \<Rightarrow> project_row \<Rightarrow> bool" where
  "project_matches status p = list_all (\<lambda>f. holds f (dict_of_project p)) (status_filters status)"

definition query_projects_filters ::
  "ProjectStatus option \<Rightarrow> string list option \<Rightarrow> string list option \<Rightarrow> error + sql_expr list" where
  "query_projects_filters status collab_id owner_id =
     (let filters0 = (case status of None \<Rightarrow> [] | Some s \<Rightarrow> status_filters s)
      in case append_list_filter ''collab'' collab_id filters0 of
           Inl e \<Rightarrow> Inl e
         | Inr filters1 \<Rightarrow> append_list_filter ''owner'' owner_id filters1)"

text \<open>A list comprehension whose body may raise: the first error ends it.\<close>

fun map_results :: "('a \<Rightarrow> error + 'b) \<Rightarrow> 'a list \<Rightarrow> error + 'b list" where
  "map_results f [] = Inr []"
| "map_results f (x # xs) =
     (case f x of
        Inl e \<Rightarrow> Inl e
      | Inr y \<Rightarrow> (case map_results f xs of Inl e \<Rightarrow> Inl e | Inr ys \<Rightarrow> Inr (y # ys)))"

definition query_projects ::
  "ProjectStatus option \<Rightarrow> string list option \<Rightarrow> string list option \<Rightarrow> nat \<Rightarrow> nat \<Rightarrow> store \<Rightarrow>
   error + pydict list" where
  "query_projects status collab_id owner_id from_index sz st =
     (case query_projects_filters status collab_id owner_id of
        Inl e \<Rightarrow> Inl e
      | Inr filters \<Rightarrow>
          (case (if filters \<noteq> []
                 then fetch_all dict_of_project filters from_index sz (projects st)
                 else fetch_all dict_of_project [] from_index sz (projects st)) of
             Inl e \<Rightarrow> Inl e
           | Inr results \<Rightarrow>
               map_results (\<lambda>result. transform_project_fields (dict_of_project result))
                 results))"

section \<open>Jobs\<close>

text \<open>
  \<^verbatim>\<open>transform_fields(job)\<close>. \<^verbatim>\<open>json.loads\<close> and the table \<^verbatim>\<open>RESOURCE_USAGE_UNITS\<close> of
  \<^verbatim>\<open>globals\<close> are parameters: the first returns the decoded value or raises, the second
  is a dictionary from platform to unit.
\<close>

definition transform_fields ::
  "(val \<Rightarrow> error + val) \<Rightarrow> (val \<rightharpoonup> string) \<Rightarrow> pydict \<Rightarrow> error + pydict" where
  "transform_fields json_loads RESOURCE_USAGE_UNITS job =
     (case (if truthy (dict_get job ''hardware_config'')
            then (case json_loads (dict_get job ''hardware_config'') of
                    Inl e \<Rightarrow> Inl e
                  | Inr v \<Rightarrow> Inr (job(''hardware_config'' \<mapsto> v)))
            else Inr job) of
        Inl e \<Rightarrow> Inl e
      | Inr job1 \<Rightarrow>
     (case (if truthy (dict_get job1 ''provenance'')
            then (case json_loads (dict_get job1 ''provenance'') of
                    Inl e \<Rightarrow> Inl e
                  | Inr v \<Rightarrow> Inr (job1(''provenance'' \<mapsto> v)))
            else Inr job1) of
        Inl e \<Rightarrow> Inl e
      | Inr job2 \<Rightarrow>
          if dict_get job2 ''resource_usage'' \<noteq> VNone
          then (case dict_index job2 ''hardware_platform'' of
                  Inl e \<Rightarrow> Inl e
                | Inr hardware_platform \<Rightarrow>
                    if hashable hardware_platform
                    then Inr (job2(''resource_usage'' \<mapsto>
                           VDict [(''value'', dict_get job2 ''resource_usage''),
                                  (''units'',
                                   VStr (case RESOURCE_USAGE_UNITS hardware_platform of
                                           None \<Rightarrow> ''hours''
                                         | Some u \<Rightarrow> u))]))
                    else Inl TypeError)
          else Inr job2))"

text \<open>
  \<^verbatim>\<open>follow_relationships(job)\<close>: the data items joined to the job through a relation
  table, as a list of dicts, for the input and for the output relation.
\<close>

definition related_items :: "(int \<times> int) list \<Rightarrow> val \<Rightarrow> store \<Rightarrow> val list" where
  "related_items relation job_id st =
     concat (map (\<lambda>d. map (\<lambda>_. dict_of_data_item d)
                        (filter (\<lambda>(j, di). d_id d = di \<and> VInt j = job_id) relation))
               (data_items st))"

definition follow_relationships :: "pydict \<Rightarrow> store \<Rightarrow> error + pydict" where
  "follow_relationships job st =
     (case dict_index job ''id'' of
        Inl e \<Rightarrow> Inl e
      | Inr job_id \<Rightarrow>
          Inr (job(''input_data'' \<mapsto> VList (related_items (job_input_data st) job_id st),
                   ''output_data'' \<mapsto> VList (related_items (job_output_data st) job_id st))))"

text \<open>
  The select of \<^verbatim>\<open>query_jobs\<close>: \<^verbatim>\<open>jobs.select()\<close> when \<open>fields\<close> is \<open>None\<close>, and
  \<^verbatim>\<open>jobs.select(*[literal_column(field) for field in fields])\<close> otherwise. The method takes
  no columns: with an empty list the second call is the first, with a non-empty list it
  raises. No call projects the row.
\<close>

definition jobs_select :: "string list option \<Rightarrow> error + unit" where
  "jobs_select field_list =
     (case field_list of
        None \<Rightarrow> Inr ()
      | Some fs \<Rightarrow> if fs = [] then Inr () else Inl TypeError)"

definition query_jobs ::
  "(val \<Rightarrow> error + val) \<Rightarrow> (val \<rightharpoonup> string) \<Rightarrow>
   string list option \<Rightarrow> string list option \<Rightarrow> string list option \<Rightarrow> string list option \<Rightarrow>
   int option \<Rightarrow> int option \<Rightarrow> string list option \<Rightarrow> nat \<Rightarrow> nat \<Rightarrow> store \<Rightarrow>
   error + pydict list" where
  "query_jobs json_loads RESOURCE_USAGE_UNITS status collab_id user_id hardware_platform
     date_range_start date_range_end field_list from_index sz st =
     (case query_jobs_filters status collab_id user_id hardware_platform
             date_range_start date_range_end of
        Inl e \<Rightarrow> Inl e
      | Inr filters \<Rightarrow>
     (case jobs_select field_list of
        Inl e \<Rightarrow> Inl e
      | Inr select \<Rightarrow>
     (case (if filters \<noteq> []
            then fetch_all dict_of_job filters from_index sz (jobs st)
            else fetch_all dict_of_job [] from_index sz (jobs st)) of
        Inl e \<Rightarrow> Inl e
      | Inr results \<Rightarrow>
          map_results
            (\<lambda>result. case follow_relationships (dict_of_job result) st of
                 Inl e \<Rightarrow> Inl e
               | Inr job \<Rightarrow> transform_fields json_loads RESOURCE_USAGE_UNITS job)
            results)))"

text \<open>
  \<^verbatim>\<open>get_job(job_id)\<close> and \<^verbatim>\<open>get_log(job_id)\<close> pass the result of \<open>fetch_one\<close> to
  \<^verbatim>\<open>dict\<close> without a test; \<^verbatim>\<open>dict(None)\<close> raises \<open>TypeError\<close>.
\<close>

definition get_job ::
  "(val \<Rightarrow> error + val) \<Rightarrow> (val \<rightharpoonup> string) \<Rightarrow> int \<Rightarrow> store \<Rightarrow> error + pydict" where
  "get_job json_loads RESOURCE_USAGE_UNITS job_id st =
     (case find (\<lambda>j. j_id j = job_id) (jobs st) of
        None \<Rightarrow> Inl TypeError
      | Some result \<Rightarrow>
          (case follow_relationships (dict_of_job result) st of
             Inl e \<Rightarrow> Inl e
           | Inr job \<Rightarrow> transform_fields json_loads RESOURCE_USAGE_UNITS job))"

definition get_log :: "int \<Rightarrow> store \<Rightarrow> error + pydict" where
  "get_log job_id st =
     (case find (\<lambda>l. l_job_id l = job_id) (logs st) of
        None \<Rightarrow> Inl TypeError
      | Some result \<Rightarrow> Inr (dict_of_log result))"

section \<open>A small database\<close>

text \<open>
  One project under review with one quota, and one finished job whose resource usage is
  the legal zero; the same database without the quota; a project stored with a null
  \<open>accepted\<close>. \<open>example_loads\<close> stands for \<^verbatim>\<open>json.loads\<close> on the one document the
  example stores; \<open>example_units\<close> is a unit table with one platform.
\<close>

definition empty_store :: store where
  "empty_store =
     \<lparr>jobs = [], job_input_data = [], job_output_data = [], data_items = [], logs = [],
      projects = [], quotas = [], quota_seq = 1\<rparr>"

definition example_loads :: "val \<Rightarrow> error + val" where
  "example_loads v = (if v = VStr ''{}'' then Inr (VDict []) else Inl ParseError)"

definition example_units :: "val \<rightharpoonup> string" where
  "example_units = [VStr ''SpiNNaker'' \<mapsto> ''core-hours'']"

definition job1 :: job_row where
  "job1 =
     \<lparr>j_id = 1, j_code = ''run()'', j_command = ''run'', j_collab_id = ''c1'',
      j_user_id = ''u1'', j_status = ''finished'', j_hardware_platform = ''SpiNNaker'',
      j_hardware_config = Some ''{}'', j_timestamp_submission = 100,
      j_timestamp_completion = Some 200, j_provenance = None, j_resource_usage = Some 0\<rparr>"

definition project1 :: project_row where
  "project1 =
     \<lparr>p_context = ''p1'', p_collab = ''c1'', p_owner = ''o1'', p_title = ''t'',
      p_abstract = ''a'', p_description = ''d'', p_duration = Some 0, p_start_date = None,
      p_accepted = Some False, p_submission_date = Some 19754, p_decision_date = None\<rparr>"

definition quota1 :: quota_row where
  "quota1 =
     \<lparr>q_id = 1, q_units = ''core-hours'', q_limit = 50, q_usage = 0,
      q_platform = ''SpiNNaker'', q_project_id = ''p1''\<rparr>"

definition store1 :: store where
  "store1 =
     \<lparr>jobs = [job1], job_input_data = [], job_output_data = [], data_items = [], logs = [],
      projects = [project1], quotas = [quota1], quota_seq = 2\<rparr>"

definition project_in1 :: project_in where
  "project_in1 =
     \<lparr>pi_id = ''p2'', pi_collab = ''c1'', pi_owner = ''o1'', pi_title = ''t'',
      pi_abstract = ''a'', pi_description = ''d'', pi_accepted = Some False,
      pi_submitted = True\<rparr>"

definition project_null :: project_row where
  "project_null =
     \<lparr>p_context = ''p3'', p_collab = ''c1'', p_owner = ''o1'', p_title = ''t'',
      p_abstract = ''a'', p_description = ''d'', p_duration = Some 0, p_start_date = None,
      p_accepted = None, p_submission_date = None, p_decision_date = None\<rparr>"

definition store_no_quota :: store where
  "store_no_quota =
     \<lparr>jobs = [job1], job_input_data = [], job_output_data = [], data_items = [], logs = [],
      projects = [project1], quotas = [], quota_seq = 2\<rparr>"

definition quota_in1 :: quota_in where
  "quota_in1 = \<lparr>qi_limit = 75, qi_platform = ''BrainScaleS'', qi_units = ''wafer-hours''\<rparr>"

definition quota_update1 :: quota_update where
  "quota_update1 = \<lparr>qu_limit = 100, qu_usage = 40\<rparr>"

section \<open>Facts about \<open>find\<close> and the filter builders\<close>

lemma find_holds: "find P xs = Some x \<Longrightarrow> P x"
  by (induction xs) (simp_all split: if_splits)

lemma find_append_fresh:
  "\<forall>x \<in> set xs. \<not> P x \<Longrightarrow> P y \<Longrightarrow> find P (xs @ [y]) = Some y"
  by (induction xs) simp_all

lemma find_map_invariant:
  "(\<And>x. P (f x) = P x) \<Longrightarrow> find P (map f xs) = map_option f (find P xs)"
  by (induction xs) simp_all

lemma get_list_filter_empty: "get_list_filter attr [] = Inl IndexError"
  by (simp add: get_list_filter_def)

lemma append_list_filter_eq:
  "append_list_filter attr arg filters =
     Inr (filters @
       (case arg of
          None \<Rightarrow> []
        | Some value \<Rightarrow> if value \<noteq> [] then [In attr (map VStr value)] else []))"
  by (simp add: append_list_filter_def get_list_filter_def split: option.splits)

lemma query_jobs_filters_ok:
  "\<exists>fs. query_jobs_filters status collab_id user_id hardware_platform d1 d2 = Inr fs"
  by (simp add: query_jobs_filters_def Let_def append_list_filter_eq)

lemma query_projects_filters_ok:
  "\<exists>fs. query_projects_filters status collab_id owner_id = Inr fs"
  by (simp add: query_projects_filters_def Let_def append_list_filter_eq)

section \<open>Deleting projects and quotas\<close>

lemma foreign_key_violation_iff:
  "list_ex (\<lambda>q. list_ex (\<lambda>p. q_project_id q = p_context p)
                   (filter (\<lambda>p. VStr (p_context p) = project_id) ps)) qs
   \<longleftrightarrow> list_ex (\<lambda>p. VStr (p_context p) = project_id) ps
       \<and> list_ex (\<lambda>q. VStr (q_project_id q) = project_id) qs"
  by (auto simp: list_ex_iff)

text \<open>
  C1, as the code has it: \<^verbatim>\<open>delete_project(p)\<close> removes no quota. When \<open>p\<close> is stored and a
  quota references it, the delete raises the foreign-key violation and nothing is
  removed; otherwise the project rows whose key is \<open>p\<close> are removed, the quota table is
  the one it was, and a following \<^verbatim>\<open>query_quotas(p, ...)\<close> returns what it returned before
  the delete.
\<close>

theorem delete_project_keeps_quotas:
  "(case delete_project project_id st of
      Inl e \<Rightarrow>
        e = ForeignKeyViolationError
        \<and> list_ex (\<lambda>p. VStr (p_context p) = project_id) (projects st)
        \<and> list_ex (\<lambda>q. VStr (q_project_id q) = project_id) (quotas st)
    | Inr st' \<Rightarrow>
        \<not> (list_ex (\<lambda>p. VStr (p_context p) = project_id) (projects st)
            \<and> list_ex (\<lambda>q. VStr (q_project_id q) = project_id) (quotas st))
        \<and> projects st' = filter (\<lambda>p. VStr (p_context p) \<noteq> project_id) (projects st)
        \<and> quotas st' = quotas st
        \<and> query_quotas project_id from_index sz st'
            = query_quotas project_id from_index sz st)"
  by (simp add: delete_project_def Let_def foreign_key_violation_iff query_quotas_def)

theorem delete_project_keeps_quotas_witness:
  "delete_project (VStr ''p1'') store_no_quota = Inr (store_no_quota\<lparr>projects := []\<rparr>)
   \<and> delete_project (VStr ''p1'') store1 = Inl ForeignKeyViolationError"
  using delete_project_keeps_quotas [of "VStr ''p1''" store_no_quota 0 10]
    delete_project_keeps_quotas [of "VStr ''p1''" store1 0 10]
  by (simp add: delete_project_def store_no_quota_def store1_def project1_def quota1_def)

text \<open>
  The cascade fails on the example database: the delete of project \<open>p1\<close>, which owns a
  quota, is refused, and the query for the quotas of \<open>p1\<close> on the database, which the
  refused delete left as it was, is not empty.
\<close>

theorem delete_project_cascade_counterexample:
  "delete_project (VStr ''p1'') store1 = Inl ForeignKeyViolationError
   \<and> query_quotas (VStr ''p1'') 0 10 store1 \<noteq> []"
  by (simp add: query_quotas_def delete_project_def store1_def quota1_def project1_def)

text \<open>
  The call \<^verbatim>\<open>query_deleteonequota(project_id, result.id)\<close> compares the integer key with
  the project and the project column with an integer, which holds for no row.
\<close>

lemma query_deleteonequota_swapped:
  "query_deleteonequota project_id (VInt i) st = st"
  by (simp add: query_deleteonequota_def)

lemma delete_quotas_from_project_unchanged:
  "delete_quotas_from_project project_id st = st"
proof -
  have "fold (\<lambda>result s. query_deleteonequota project_id (VInt (q_id result)) s) rs s = s"
    for rs :: "quota_row list" and s
    by (induction rs arbitrary: s) (simp_all add: query_deleteonequota_swapped)
  then show ?thesis
    by (simp add: delete_quotas_from_project_def Let_def)
qed

text \<open>
  C2, on the example database: \<^verbatim>\<open>delete_quotas_from_project\<close> for project \<open>p1\<close> leaves the
  quota of \<open>p1\<close> in the table, where the claim has no quota of the project remain.
\<close>

theorem delete_quotas_from_project_leaves_quota:
  "quotas (delete_quotas_from_project (VStr ''p1'') store1) = [quota1]
   \<and> q_project_id quota1 = ''p1''"
  by (simp add: delete_quotas_from_project_def query_deleteonequota_def store1_def quota1_def)

section \<open>Project status\<close>

lemma project_matches_iff:
  "project_matches s p \<longleftrightarrow>
     (s = accepted \<and> p_accepted p = Some True) \<or>
     (s = rejected \<and> p_accepted p = Some False \<and> p_decision_date p \<noteq> None) \<or>
     (s = under_review \<and> p_accepted p = Some False \<and> p_submission_date p \<noteq> None
        \<and> p_decision_date p = None) \<or>
     (s = in_prep \<and> p_accepted p = Some False \<and> p_submission_date p = None)"
  by (cases s)
    (auto simp: project_matches_def status_filters_def dict_of_project_def nullable_def
      split: option.splits)

text \<open>
  C3, as the code has it: for a project whose decision date is set only when its
  submission date is, exactly one of the four statuses selects the project when its
  \<open>accepted\<close> is true or false, and none does when its \<open>accepted\<close> is null. The four
  predicates exclude each other in every such state and are exhaustive for the states
  with a non-null \<open>accepted\<close>.
\<close>

theorem project_status_exactly_one:
  assumes "p_decision_date p \<noteq> None \<longrightarrow> p_submission_date p \<noteq> None"
  shows "(p_accepted p \<noteq> None \<longrightarrow> (\<exists>!s. project_matches s p))
     \<and> (p_accepted p = None \<longrightarrow> (\<forall>s. \<not> project_matches s p))"
proof (cases "p_accepted p")
  case None
  then show ?thesis by (simp add: project_matches_iff)
next
  case (Some a)
  have "\<exists>!s. project_matches s p"
  proof (cases a)
    case True
    with Some show ?thesis
      by (intro ex1I [of _ accepted]) (auto simp: project_matches_iff)
  next
    case False
    show ?thesis
    proof (cases "p_decision_date p")
      case decided: (Some d)
      with False Some assms show ?thesis
        by (intro ex1I [of _ rejected]) (auto simp: project_matches_iff)
    next
      case undecided: None
      show ?thesis
      proof (cases "p_submission_date p")
        case submitted: (Some d)
        with False Some undecided show ?thesis
          by (intro ex1I [of _ under_review]) (auto simp: project_matches_iff)
      next
        case unsubmitted: None
        with False Some undecided show ?thesis
          by (intro ex1I [of _ in_prep]) (auto simp: project_matches_iff)
      qed
    qed
  qed
  with Some show ?thesis by simp
qed

theorem project_status_exactly_one_witness:
  "p_decision_date project1 = None \<and> p_accepted project1 = Some False
   \<and> (\<exists>!s. project_matches s project1)
   \<and> project_matches under_review project1"
  using project_status_exactly_one [of project1]
  by (simp add: project1_def project_matches_iff)

text \<open>
  A project stored with a null \<open>accepted\<close>, no submission date and no decision date meets
  the invariant, and none of the four statuses selects it.
\<close>

theorem project_status_null_counterexample:
  "p_decision_date project_null = None
   \<and> \<not> project_matches in_prep project_null
   \<and> \<not> project_matches under_review project_null
   \<and> \<not> project_matches rejected project_null
   \<and> \<not> project_matches accepted project_null"
  by (simp add: project_matches_iff project_null_def)

section \<open>The status filter of \<open>query_jobs\<close>\<close>

text \<open>
  On the example database the query without filters returns the job, and the one-element
  status list \<^verbatim>\<open>["finished"]\<close>, the job's own status, is rejected like every other list.
\<close>

lemma query_jobs_unfiltered_example:
  "\<exists>d. query_jobs example_loads example_units None None None None None None None 0 10 store1
        = Inr [d]"
  by (simp add: query_jobs_def query_jobs_filters_def append_list_filter_def jobs_select_def
      fetch_all_def store1_def job1_def dict_of_job_def follow_relationships_def
      dict_index_def transform_fields_def dict_get_def nullable_def example_loads_def
      related_items_def)

lemma query_jobs_single_status_example:
  "query_jobs example_loads example_units (Some [''finished'']) None None None None None None
     0 10 store1 = Inl DataError"
  by (simp add: query_jobs_def query_jobs_filters_def append_list_filter_def jobs_select_def
      fetch_all_def)



section \<open>Single-item lookups\<close>

text \<open>
  What each lookup does for an identifier that is not stored: \<^verbatim>\<open>get_job\<close> and \<^verbatim>\<open>get_log\<close>
  raise, \<^verbatim>\<open>get_project\<close> and \<^verbatim>\<open>get_quota\<close> return \<open>None\<close>.
\<close>

lemma get_job_absent:
  "\<forall>j \<in> set (jobs st). j_id j \<noteq> job_id \<Longrightarrow> get_job L U job_id st = Inl TypeError"
  by (simp add: get_job_def find_None_iff [THEN iffD2])

lemma get_log_absent:
  "\<forall>l \<in> set (logs st). l_job_id l \<noteq> job_id \<Longrightarrow> get_log job_id st = Inl TypeError"
  by (simp add: get_log_def find_None_iff [THEN iffD2])

lemma get_project_absent:
  "\<forall>p \<in> set (projects st). VStr (p_context p) \<noteq> project_id \<Longrightarrow> get_project project_id st = Inr None"
  by (simp add: get_project_def find_None_iff [THEN iffD2])

lemma get_quota_absent:
  "\<forall>q \<in> set (quotas st). \<not> (VInt (q_id q) = quota_id \<and> VStr (q_project_id q) = project_id)
   \<Longrightarrow> get_quota quota_id project_id st = None"
  by (simp add: get_quota_def find_None_iff [THEN iffD2])

text \<open>
  C5, on the empty database: \<^verbatim>\<open>get_job(1)\<close> and \<^verbatim>\<open>get_log(1)\<close> raise \<open>TypeError\<close>, where
  the claim has them return an absence marker as \<^verbatim>\<open>get_project\<close> and \<^verbatim>\<open>get_quota\<close> do.
\<close>

theorem get_job_get_log_absent_raise:
  "get_job example_loads example_units 1 empty_store = Inl TypeError
   \<and> get_log 1 empty_store = Inl TypeError
   \<and> get_project (VStr ''p1'') empty_store = Inr None
   \<and> get_quota (VInt 1) (VStr ''p1'') empty_store = None"
  by (simp add: get_job_def get_log_def get_project_def get_quota_def empty_store_def)

section \<open>The field transform\<close>

text \<open>
  C6: for a job record whose \<open>hardware_config\<close> and \<open>provenance\<close> are empty or decode, and
  which carries its \<open>hardware_platform\<close> when it has a resource usage,
  \<^verbatim>\<open>transform_fields\<close> returns a record in which a stored resource usage, the value 0.0
  included, has become \<open>{value, units}\<close> with the unit of the platform in the table, or
  \<open>hours\<close> when the table has none; an absent resource usage stays as it was.
\<close>

theorem transform_fields_resource_usage:
  assumes hc: "truthy (dict_get job ''hardware_config'') \<Longrightarrow>
                 \<exists>v. json_loads (dict_get job ''hardware_config'') = Inr v"
      and pv: "truthy (dict_get job ''provenance'') \<Longrightarrow>
                 \<exists>v. json_loads (dict_get job ''provenance'') = Inr v"
      and hp: "dict_get job ''resource_usage'' \<noteq> VNone \<Longrightarrow>
                 \<exists>p. job ''hardware_platform'' = Some p \<and> hashable p"
  shows "\<exists>job'. transform_fields json_loads units job = Inr job' \<and>
           job' ''resource_usage'' =
             (if dict_get job ''resource_usage'' \<noteq> VNone
              then Some (VDict [(''value'', dict_get job ''resource_usage''),
                                (''units'', VStr (case units (dict_get job ''hardware_platform'') of
                                                    None \<Rightarrow> ''hours'' | Some u \<Rightarrow> u))])
              else job ''resource_usage'')"
proof -
  let ?s1 = "if truthy (dict_get job ''hardware_config'')
            then (case json_loads (dict_get job ''hardware_config'') of
                    Inl e \<Rightarrow> Inl e
                  | Inr v \<Rightarrow> Inr (job(''hardware_config'' \<mapsto> v)))
            else Inr job"
  obtain job1 where s1: "?s1 = Inr job1"
    and k1: "\<And>k. k \<noteq> ''hardware_config'' \<Longrightarrow> job1 k = job k"
    using hc by (cases "truthy (dict_get job ''hardware_config'')") auto
  have g1: "dict_get job1 ''provenance'' = dict_get job ''provenance''"
    by (simp add: dict_get_def k1)
  let ?s2 = "if truthy (dict_get job1 ''provenance'')
            then (case json_loads (dict_get job1 ''provenance'') of
                    Inl e \<Rightarrow> Inl e
                  | Inr v \<Rightarrow> Inr (job1(''provenance'' \<mapsto> v)))
            else Inr job1"
  obtain job2 where s2: "?s2 = Inr job2"
    and k2: "\<And>k. k \<noteq> ''provenance'' \<Longrightarrow> job2 k = job1 k"
    using pv unfolding g1 by (cases "truthy (dict_get job ''provenance'')") auto
  have ru: "job2 ''resource_usage'' = job ''resource_usage''"
    and pl: "job2 ''hardware_platform'' = job ''hardware_platform''"
    by (simp_all add: k1 k2)
  have gru: "dict_get job2 ''resource_usage'' = dict_get job ''resource_usage''"
    by (simp add: dict_get_def ru)
  have tf: "transform_fields json_loads units job =
      (if dict_get job2 ''resource_usage'' \<noteq> VNone
          then (case dict_index job2 ''hardware_platform'' of
                  Inl e \<Rightarrow> Inl e
                | Inr hardware_platform \<Rightarrow>
                    if hashable hardware_platform
                    then Inr (job2(''resource_usage'' \<mapsto>
                           VDict [(''value'', dict_get job2 ''resource_usage''),
                                  (''units'',
                                   VStr (case units hardware_platform of
                                           None \<Rightarrow> ''hours''
                                         | Some u \<Rightarrow> u))]))
                    else Inl TypeError)
          else Inr job2)"
    unfolding transform_fields_def s1 sum.case s2 ..
  show ?thesis
  proof (cases "dict_get job ''resource_usage'' = VNone")
    case True
    then show ?thesis by (simp add: tf gru ru)
  next
    case False
    then obtain p where p: "job ''hardware_platform'' = Some p" "hashable p"
      using hp by blast
    then have gp: "dict_get job ''hardware_platform'' = p"
      by (simp add: dict_get_def)
    from p False show ?thesis
      by (simp add: tf gru gp dict_index_def pl)
  qed
qed

theorem transform_fields_resource_usage_witness:
  "(\<exists>job'. transform_fields example_loads example_units
              (dict_of_job job1) = Inr job'
        \<and> job' ''resource_usage'' =
            Some (VDict [(''value'', VFloat 0), (''units'', VStr ''core-hours'')]))
   \<and> (\<exists>job'. transform_fields example_loads example_units
              (dict_of_job (job1\<lparr>j_resource_usage := None\<rparr>)) = Inr job'
        \<and> job' ''resource_usage'' = Some VNone)"
  using transform_fields_resource_usage [of "dict_of_job job1" example_loads example_units]
    transform_fields_resource_usage [of "dict_of_job (job1\<lparr>j_resource_usage := None\<rparr>)" example_loads example_units]
  by (simp add: dict_of_job_def job1_def dict_get_def example_loads_def example_units_def nullable_def)

section \<open>Creating a project\<close>

text \<open>
  C7, as the code has it: when no stored project has the identifier of the request,
  \<^verbatim>\<open>post_project\<close> appends one project row whose key is that identifier, whose submission
  date is today exactly when the request says submitted and null otherwise, and whose
  duration is 0, and it returns \<open>None\<close>; when the identifier is stored, it raises the
  unique violation and stores nothing.
\<close>

theorem post_project_stores_returns_none:
  "(\<not> list_ex (\<lambda>p. p_context p = pi_id project) (projects st) \<longrightarrow>
      (\<exists>row. post_project today project st
                = Inr (VNone, st\<lparr>projects := projects st @ [row]\<rparr>)
         \<and> p_context row = pi_id project
         \<and> p_submission_date row = (if pi_submitted project then Some today else None)
         \<and> p_duration row = Some 0))
   \<and> (list_ex (\<lambda>p. p_context p = pi_id project) (projects st) \<longrightarrow>
        post_project today project st = Inl UniqueViolationError)"
proof -
  let ?row =
    "\<lparr>p_context = pi_id project, p_collab = pi_collab project,
      p_owner = pi_owner project, p_title = pi_title project,
      p_abstract = pi_abstract project, p_description = pi_description project,
      p_duration = Some 0, p_start_date = None, p_accepted = pi_accepted project,
      p_submission_date = (if pi_submitted project then Some today else None),
      p_decision_date = None\<rparr>"
  have fresh: "post_project today project st
      = Inr (VNone, st\<lparr>projects := projects st @ [?row]\<rparr>)"
    if "\<not> list_ex (\<lambda>p. p_context p = pi_id project) (projects st)"
    using that by (simp add: post_project_def Let_def)
  have row: "p_context ?row = pi_id project
      \<and> p_submission_date ?row = (if pi_submitted project then Some today else None)
      \<and> p_duration ?row = Some 0"
    by simp
  have stored: "post_project today project st = Inl UniqueViolationError"
    if "list_ex (\<lambda>p. p_context p = pi_id project) (projects st)"
    using that by (simp add: post_project_def Let_def)
  from fresh row stored show ?thesis by blast
qed

theorem post_project_stores_returns_none_witness:
  "\<not> list_ex (\<lambda>p. p_context p = pi_id project_in1) (projects store1)
   \<and> (\<exists>row. post_project 19754 project_in1 store1
               = Inr (VNone, store1\<lparr>projects := projects store1 @ [row]\<rparr>)
        \<and> p_context row = ''p2''
        \<and> p_submission_date row = Some 19754
        \<and> p_duration row = Some 0)"
  using post_project_stores_returns_none [of project_in1 store1 19754]
  by (simp add: project_in1_def store1_def project1_def)

text \<open>
  On the empty database the call creates the row and returns \<open>None\<close>, not the project.
\<close>

theorem post_project_return_counterexample:
  "map_sum id (\<lambda>(r, st'). (r, length (projects st')))
     (post_project 19754 project_in1 empty_store) = Inr (VNone, 1)"
  by (simp add: post_project_def empty_store_def Let_def)

section \<open>Creating and updating a quota\<close>

text \<open>
  C8: when no stored quota has the identifier the sequence gives next, \<^verbatim>\<open>post_quotas\<close>
  followed by \<^verbatim>\<open>get_quota\<close> on that identifier and the project returns a record with usage
  0 and the limit, platform and units of the request.
\<close>

theorem post_quotas_get_quota_roundtrip:
  assumes "\<forall>q \<in> set (quotas st). q_id q \<noteq> quota_seq st"
  shows "\<exists>d. get_quota (VInt (quota_seq st)) (VStr project_id) (snd (post_quotas project_id quota st))
            = Some d
     \<and> d ''usage'' = Some (VFloat 0)
     \<and> d ''limit'' = Some (VFloat (qi_limit quota))
     \<and> d ''platform'' = Some (VStr (qi_platform quota))
     \<and> d ''units'' = Some (VStr (qi_units quota))
     \<and> d ''project_id'' = Some (VStr project_id)
     \<and> d ''id'' = Some (VInt (quota_seq st))"
  using assms
  by (simp add: get_quota_def post_quotas_def find_append_fresh dict_of_quota_def)

theorem post_quotas_get_quota_roundtrip_witness:
  "map q_id (quotas store1) = [1] \<and> quota_seq store1 = 2
   \<and> (\<exists>d. get_quota (VInt 2) (VStr ''p1'') (snd (post_quotas ''p1'' quota_in1 store1)) = Some d
     \<and> d ''usage'' = Some (VFloat 0)
     \<and> d ''limit'' = Some (VFloat 75)
     \<and> d ''platform'' = Some (VStr ''BrainScaleS'')
     \<and> d ''units'' = Some (VStr ''wafer-hours'')
     \<and> d ''project_id'' = Some (VStr ''p1'')
     \<and> d ''id'' = Some (VInt 2))"
  using post_quotas_get_quota_roundtrip [of store1 "''p1''" quota_in1]
  by (simp add: store1_def quota1_def quota_in1_def)

text \<open>
  C9: for a quota that \<^verbatim>\<open>get_quota\<close> finds, \<^verbatim>\<open>put_quotas\<close> followed by \<^verbatim>\<open>get_quota\<close>
  returns the earlier record with the limit and the usage replaced and nothing else
  changed; over the whole table the identifiers, units, platforms and project references
  are the ones they were.
\<close>

theorem put_quotas_frame:
  assumes "get_quota quota_id project_id st = Some d"
  shows "get_quota quota_id project_id (put_quotas project_id quota quota_id st)
           = Some (d(''limit'' \<mapsto> VFloat (qu_limit quota), ''usage'' \<mapsto> VFloat (qu_usage quota)))
     \<and> map (\<lambda>r. (q_id r, q_units r, q_platform r, q_project_id r))
           (quotas (put_quotas project_id quota quota_id st))
         = map (\<lambda>r. (q_id r, q_units r, q_platform r, q_project_id r)) (quotas st)"
proof -
  let ?P = "\<lambda>q. VInt (q_id q) = quota_id \<and> VStr (q_project_id q) = project_id"
  let ?f = "\<lambda>q. if ?P q then q\<lparr>q_limit := qu_limit quota, q_usage := qu_usage quota\<rparr> else q"
  from assms obtain q where q: "find ?P (quotas st) = Some q" and d: "d = dict_of_quota q"
    by (auto simp: get_quota_def split: option.splits)
  have "find ?P (map ?f (quotas st)) = map_option ?f (find ?P (quotas st))"
    by (rule find_map_invariant) simp
  moreover have "?P q" using find_holds [OF q] .
  moreover have "dict_of_quota (q\<lparr>q_limit := qu_limit quota, q_usage := qu_usage quota\<rparr>)
      = (dict_of_quota q)(''limit'' \<mapsto> VFloat (qu_limit quota), ''usage'' \<mapsto> VFloat (qu_usage quota))"
    by (rule ext) (simp add: dict_of_quota_def)
  ultimately have get: "get_quota quota_id project_id (put_quotas project_id quota quota_id st)
           = Some (d(''limit'' \<mapsto> VFloat (qu_limit quota), ''usage'' \<mapsto> VFloat (qu_usage quota)))"
    using q d by (simp add: get_quota_def put_quotas_def)
  have "map (\<lambda>r. (q_id r, q_units r, q_platform r, q_project_id r)) (map ?f rs)
         = map (\<lambda>r. (q_id r, q_units r, q_platform r, q_project_id r)) rs" for rs
    by (induction rs) simp_all
  then have frame: "map (\<lambda>r. (q_id r, q_units r, q_platform r, q_project_id r))
           (quotas (put_quotas project_id quota quota_id st))
         = map (\<lambda>r. (q_id r, q_units r, q_platform r, q_project_id r)) (quotas st)"
    by (simp add: put_quotas_def)
  from get frame show ?thesis by simp
qed

theorem put_quotas_frame_witness:
  "get_quota (VInt 1) (VStr ''p1'') store1 = Some (dict_of_quota quota1)
   \<and> get_quota (VInt 1) (VStr ''p1'') (put_quotas (VStr ''p1'') quota_update1 (VInt 1) store1)
       = Some ((dict_of_quota quota1)(''limit'' \<mapsto> VFloat 100, ''usage'' \<mapsto> VFloat 40))"
proof -
  have g: "get_quota (VInt 1) (VStr ''p1'') store1 = Some (dict_of_quota quota1)"
    by (simp add: get_quota_def store1_def quota1_def)
  show ?thesis
    using g put_quotas_frame [OF g, of quota_update1] by (simp add: quota_update1_def)
qed

section \<open>Empty list filters\<close>

text \<open>
  C10: in \<^verbatim>\<open>query_jobs\<close> and \<^verbatim>\<open>query_projects\<close> an empty list for \<open>collab_id\<close>,
  \<open>user_id\<close>, \<open>hardware_platform\<close> or \<open>owner_id\<close> gives the result of the absent argument,
  and building the filters never raises: \<^verbatim>\<open>get_list_filter\<close> is not reached with an empty
  list, the one argument on which it raises \<open>IndexError\<close>.
\<close>

theorem empty_list_filter_absent:
  "query_jobs json_loads units status (Some []) user_id hardware_platform date_range_start date_range_end field_list from_index sz st
     = query_jobs json_loads units status None user_id hardware_platform date_range_start date_range_end field_list from_index sz st
   \<and> query_jobs json_loads units status collab_id (Some []) hardware_platform date_range_start date_range_end field_list from_index sz st
     = query_jobs json_loads units status collab_id None hardware_platform date_range_start date_range_end field_list from_index sz st
   \<and> query_jobs json_loads units status collab_id user_id (Some []) date_range_start date_range_end field_list from_index sz st
     = query_jobs json_loads units status collab_id user_id None date_range_start date_range_end field_list from_index sz st
   \<and> query_projects pstatus (Some []) owner_id from_index sz st
     = query_projects pstatus None owner_id from_index sz st
   \<and> query_projects pstatus collab_id (Some []) from_index sz st
     = query_projects pstatus collab_id None from_index sz st
   \<and> (\<exists>fs. query_jobs_filters status collab_id user_id hardware_platform date_range_start date_range_end = Inr fs)
   \<and> (\<exists>fs. query_projects_filters pstatus collab_id owner_id = Inr fs)
   \<and> get_list_filter attr [] = Inl IndexError"
proof -
  have j1: "query_jobs_filters status (Some []) user_id hardware_platform date_range_start date_range_end
      = query_jobs_filters status None user_id hardware_platform date_range_start date_range_end"
    by (simp add: query_jobs_filters_def append_list_filter_eq)
  have j2: "query_jobs_filters status collab_id (Some []) hardware_platform date_range_start date_range_end
      = query_jobs_filters status collab_id None hardware_platform date_range_start date_range_end"
    by (simp add: query_jobs_filters_def append_list_filter_eq)
  have j3: "query_jobs_filters status collab_id user_id (Some []) date_range_start date_range_end
      = query_jobs_filters status collab_id user_id None date_range_start date_range_end"
    by (simp add: query_jobs_filters_def append_list_filter_eq)
  have p1: "query_projects_filters pstatus (Some []) owner_id
      = query_projects_filters pstatus None owner_id"
    by (simp add: query_projects_filters_def append_list_filter_eq)
  have p2: "query_projects_filters pstatus collab_id (Some [])
      = query_projects_filters pstatus collab_id None"
    by (simp add: query_projects_filters_def append_list_filter_eq)
  show ?thesis
    using query_jobs_filters_ok [of status collab_id user_id hardware_platform date_range_start date_range_end]
      query_projects_filters_ok [of pstatus collab_id owner_id]
    by (simp add: query_jobs_def query_projects_def j1 j2 j3 p1 p2 get_list_filter_empty)
qed

end
